theory Spec2Isabelle
  imports Complex_Main "HOL-Library.AList" "HOL-Library.Sublist"
begin

section \<open>Data model\<close>

text \<open>
  A token as the scorer reads it: spaCy's \<open>token.tag_\<close> (fine-grained part of speech)
  and \<open>token.dep_\<close> (dependency label); the field names drop the trailing underscore.
  A sentence is the list of its tokens, a document the list of its sentences
  (\<open>doc.sents\<close>).
\<close>

record token =
  orth :: string
  tag :: string
  dep :: string

type_synonym sentence = "token list"
type_synonym doc = "sentence list"

text \<open>
  The annotator \<open>nlp\<close> is an external collaborator (\<open>spacy.load(...)\<close>): it is a
  parameter of every function that calls it.  \<open>None\<close> stands for a call that raises.
\<close>

type_synonym annotator = "string \<Rightarrow> doc option"

text \<open>
  Values as \<open>json.loads\<close> builds them.  A Python dict keeps insertion order, so an
  object is an association list; \<open>d[k] = v\<close> is \<open>AList.update k v d\<close> (the value
  is replaced in place when the key exists, the pair is appended otherwise) and \<open>d[k]\<close>
  is \<open>map_of d k\<close>, a missing key being a KeyError.
\<close>

datatype json =
    JNull
  | JBool bool
  | JInt int
  | JFloat rat
  | JStr string
  | JArr "json list"
  | JObj "(string \<times> json) list"

type_synonym dict = "(string \<times> json) list"

datatype error = TypeError | KeyError string | AnnotatorError

text \<open>Python's truth value of a decoded JSON value (\<open>if x:\<close>).\<close>

fun truthy :: "json \<Rightarrow> bool" where
  "truthy JNull = False"
| "truthy (JBool b) = b"
| "truthy (JInt i) = (i \<noteq> 0)"
| "truthy (JFloat r) = (r \<noteq> 0)"
| "truthy (JStr s) = (s \<noteq> [])"
| "truthy (JArr xs) = (xs \<noteq> [])"
| "truthy (JObj d) = (d \<noteq> [])"

text \<open>
  The dict \<open>analysis\<close> of \<open>analyze_complexity\<close>: its eight keys are fixed by the
  literal that creates it and only their values are assigned afterwards, so it is a
  record; \<open>analysis_dict\<close> is the dict itself, keys in the literal's order.
\<close>

record analysis =
  has_passive_voice :: bool
  max_nested_clauses :: int
  longest_sentence :: int
  num_participle_phrases :: int
  num_sentences :: int
  is_complex :: bool
  reasons :: "string list"
  score :: int

definition analysis_dict :: "analysis \<Rightarrow> dict" where
  "analysis_dict a =
     [(''has_passive_voice'', JBool (has_passive_voice a)),
      (''max_nested_clauses'', JInt (max_nested_clauses a)),
      (''longest_sentence'', JInt (longest_sentence a)),
      (''num_participle_phrases'', JInt (num_participle_phrases a)),
      (''num_sentences'', JInt (num_sentences a)),
      (''is_complex'', JBool (is_complex a)),
      (''reasons'', JArr (map JStr (reasons a))),
      (''score'', JInt (score a))]"

section \<open>Decimal rendering of integers (f-string interpolation)\<close>

definition digit_char :: "nat \<Rightarrow> char" where
  "digit_char d = ''0123456789'' ! d"

function str_nat :: "nat \<Rightarrow> string" where
  "str_nat n = (if n < 10 then [digit_char n] else str_nat (n div 10) @ [digit_char (n mod 10)])"
  by pat_completeness auto
termination
  by (relation "measure id") auto

declare str_nat.simps [simp del]

definition str_int :: "int \<Rightarrow> string" where
  "str_int i = (if i < 0 then CHR ''-'' # str_nat (nat (- i)) else str_nat (nat i))"

section \<open>The scorer: \<open>analyze_complexity\<close>\<close>

definition MAX_PARTICIPLES :: int where
  "MAX_PARTICIPLES = 2"

definition MAX_NESTED_CLAUSES :: int where
  "MAX_NESTED_CLAUSES = 2"

definition is_passive_marker :: "token \<Rightarrow> bool" where
  "is_passive_marker t = (dep t \<in> set [''nsubjpass'', ''auxpass''])"

text \<open>
  The inner \<open>for token in sent\<close> loop: it stops (\<open>break\<close>) at the first token with a
  passive label, and records passive voice only when the flag is not yet set.
\<close>

fun scan_passive :: "analysis \<Rightarrow> token list \<Rightarrow> analysis" where
  "scan_passive a [] = a"
| "scan_passive a (t # ts) =
     (if is_passive_marker t then
        (if \<not> has_passive_voice a then
           a\<lparr>reasons := reasons a @ [''Contains passive voice''],
             has_passive_voice := True,
             score := score a + 1\<rparr>
         else a)
      else scan_passive a ts)"

definition is_participle :: "token \<Rightarrow> bool" where
  "is_participle t =
     (tag t \<in> set [''VBG'', ''VBN''] \<and> dep t \<in> set [''ROOT'', ''advcl'', ''acl''])"

definition is_clause :: "token \<Rightarrow> bool" where
  "is_clause t = (dep t \<in> set [''ccomp'', ''xcomp'', ''advcl'', ''relcl''])"

definition sent_participles :: "sentence \<Rightarrow> int" where
  "sent_participles sent = int (length (filter is_participle sent))"

definition sent_clauses :: "sentence \<Rightarrow> int" where
  "sent_clauses sent = int (length (filter is_clause sent))"

definition participle_reason :: "int \<Rightarrow> string" where
  "participle_reason c = ''Too many participle phrases ('' @ str_int c @ '') in one sentence''"

definition clause_reason :: "int \<Rightarrow> string" where
  "clause_reason c = ''Deeply nested clauses ('' @ str_int c @ '') in one sentence''"

text \<open>The body of \<open>for sent in doc.sents\<close>, one statement after the other.\<close>

definition analyze_sent :: "analysis \<Rightarrow> sentence \<Rightarrow> analysis" where
  "analyze_sent a0 sent =
     (let a1 = scan_passive a0 sent;
          a2 = a1\<lparr>max_nested_clauses := max (max_nested_clauses a1) (sent_clauses sent)\<rparr>;
          a3 = a2\<lparr>longest_sentence := max (longest_sentence a2) (int (length sent))\<rparr>;
          a4 = a3\<lparr>num_participle_phrases :=
                     max (num_participle_phrases a3) (sent_participles sent)\<rparr>;
          a5 = (if sent_participles sent > MAX_PARTICIPLES then
                  a4\<lparr>reasons := reasons a4 @ [participle_reason (sent_participles sent)],
                     score := score a4 + (sent_participles sent - MAX_PARTICIPLES)\<rparr>
                else a4)
      in (if sent_clauses sent > MAX_NESTED_CLAUSES then
            a5\<lparr>reasons := reasons a5 @ [clause_reason (sent_clauses sent)],
               score := score a5 + (sent_clauses sent - MAX_NESTED_CLAUSES)\<rparr>
          else a5))"

definition initial_analysis :: "doc \<Rightarrow> analysis" where
  "initial_analysis d =
     \<lparr>has_passive_voice = False,
      max_nested_clauses = 0,
      longest_sentence = 0,
      num_participle_phrases = 0,
      num_sentences = int (length d),
      is_complex = False,
      reasons = [],
      score = 0\<rparr>"

text \<open>Everything after \<open>doc = nlp(text)\<close>.\<close>

definition analyze_doc :: "doc \<Rightarrow> analysis" where
  "analyze_doc d =
     (let a = foldl analyze_sent (initial_analysis d) d
      in a\<lparr>is_complex := score a > 0\<rparr>)"

definition analyze_complexity :: "annotator \<Rightarrow> string \<Rightarrow> error + analysis" where
  "analyze_complexity nlp txt =
     (case nlp txt of
        None \<Rightarrow> Inl AnnotatorError
      | Some d \<Rightarrow> Inr (analyze_doc d))"

text \<open>
  What the scorer adds for one sentence, written without the running state: used to
  state the properties below, not by the functions above.
\<close>

definition sent_has_passive :: "sentence \<Rightarrow> bool" where
  "sent_has_passive sent = list_ex is_passive_marker sent"

definition sent_excess :: "sentence \<Rightarrow> int" where
  "sent_excess sent =
     (if sent_participles sent > MAX_PARTICIPLES then sent_participles sent - MAX_PARTICIPLES
      else 0) +
     (if sent_clauses sent > MAX_NESTED_CLAUSES then sent_clauses sent - MAX_NESTED_CLAUSES
      else 0)"

definition sent_reasons :: "sentence \<Rightarrow> string list" where
  "sent_reasons sent =
     (if sent_participles sent > MAX_PARTICIPLES
      then [participle_reason (sent_participles sent)] else []) @
     (if sent_clauses sent > MAX_NESTED_CLAUSES
      then [clause_reason (sent_clauses sent)] else [])"

section \<open>Single-field mode: \<open>process_line\<close> of Complex-comp.py\<close>

definition COMPLEXITY_THRESHOLD :: int where
  "COMPLEXITY_THRESHOLD = 128"

definition ANALYZE_FIELD :: string where
  "ANALYZE_FIELD = ''text''"

text \<open>The dict literal of the \<open>else\<close> branch, keys in the literal's order.\<close>

definition stub_analysis :: dict where
  "stub_analysis =
     [(''is_complex'', JBool False),
      (''reasons'', JArr [JStr (''MISSING FIELD '' @ ANALYZE_FIELD)]),
      (''has_passive_voice'', JBool False),
      (''max_nested_clauses'', JInt 0),
      (''longest_sentence'', JInt 0),
      (''num_participle_phrases'', JInt 0),
      (''score'', JInt 0)]"

text \<open>
  Lines 60 to 73: the record with \<open>complexity_analysis\<close> assigned, and
  \<open>complexity_score\<close>.  The field's value goes to \<open>nlp\<close> as it is; \<open>nlp\<close>
  raises on a value that is not a string.  \<open>obj["complexity_analysis"]["score"]\<close>
  reads back the score of the analysis just stored.
\<close>

definition analyze_field :: "annotator \<Rightarrow> dict \<Rightarrow> error + (dict \<times> int)" where
  "analyze_field nlp obj =
     (case map_of obj ANALYZE_FIELD of
        None \<Rightarrow> Inr (AList.update ''complexity_analysis'' (JObj stub_analysis) obj, 0)
      | Some v \<Rightarrow>
          if truthy v then
            (case v of
               JStr txt \<Rightarrow>
                 (case analyze_complexity nlp txt of
                    Inl e \<Rightarrow> Inl e
                  | Inr a \<Rightarrow>
                      Inr (AList.update ''complexity_analysis'' (JObj (analysis_dict a)) obj,
                           score a))
             | _ \<Rightarrow> Inl AnnotatorError)
          else Inr (AList.update ''complexity_analysis'' (JObj stub_analysis) obj, 0))"

text \<open>
  \<open>process_line\<close> on the decoded line: \<open>json.loads\<close> and \<open>json.dumps\<close> are the
  codec around it.  \<open>Inr None\<close> is the return value \<open>None\<close> (the record is dropped),
  \<open>Inr (Some r)\<close> the record that is dumped.  A decoded value that is not a dict
  raises TypeError: at \<open>ANALYZE_FIELD in obj\<close> for a number, a boolean or null, at
  \<open>obj[ANALYZE_FIELD]\<close> or at the first assignment for a list or a string.
\<close>

fun process_line :: "annotator \<Rightarrow> json \<times> bool \<Rightarrow> error + json option" where
  "process_line nlp (JObj obj, filter_out_complex) =
     (case analyze_field nlp obj of
        Inl e \<Rightarrow> Inl e
      | Inr (obj1, complexity_score) \<Rightarrow>
          (let obj2 = AList.update ''total_complexity_score'' (JInt complexity_score) obj1;
               obj3 = AList.update ''is_complex''
                        (JBool (complexity_score > COMPLEXITY_THRESHOLD)) obj2
           in if \<not> filter_out_complex \<or> complexity_score \<le> COMPLEXITY_THRESHOLD
              then Inr (Some (JObj obj3))
              else Inr None))"
| "process_line nlp (_, filter_out_complex) = Inl TypeError"

subsection \<open>The same functions with the module's state written out\<close>







section \<open>Multi-turn mode: \<open>process_line\<close> of Complex-Sharegpt\<close>

definition COMPLEXITY_THRESHOLD_sharegpt :: int where
  "COMPLEXITY_THRESHOLD_sharegpt = 64"

text \<open>
  The body of \<open>for turn in obj["conversations"]\<close> for one turn: the turn as the body
  leaves it, and what it adds to \<open>conversation_complexity\<close>.  Subscripting a turn that
  is not a dict raises TypeError.
\<close>

fun process_turn :: "annotator \<Rightarrow> json \<Rightarrow> error + (json \<times> int)" where
  "process_turn nlp (JObj turn) =
     (case map_of turn ''from'' of
        None \<Rightarrow> Inl (KeyError ''from'')
      | Some r \<Rightarrow>
          if r \<in> set [JStr ''human'', JStr ''gpt''] then
            (case map_of turn ''value'' of
               None \<Rightarrow> Inl (KeyError ''value'')
             | Some v \<Rightarrow>
                 if truthy v then
                   (case v of
                      JStr txt \<Rightarrow>
                        (case analyze_complexity nlp txt of
                           Inl e \<Rightarrow> Inl e
                         | Inr a \<Rightarrow>
                             Inr (JObj (AList.update ''complexity_analysis''
                                          (JObj (analysis_dict a)) turn),
                                  score a))
                    | _ \<Rightarrow> Inl AnnotatorError)
                 else Inr (JObj turn, 0))
          else Inr (JObj turn, 0))"
| "process_turn nlp _ = Inl TypeError"

fun process_turns :: "annotator \<Rightarrow> json list \<Rightarrow> int \<Rightarrow> error + (json list \<times> int)" where
  "process_turns nlp [] conversation_complexity = Inr ([], conversation_complexity)"
| "process_turns nlp (turn # turns) conversation_complexity =
     (case process_turn nlp turn of
        Inl e \<Rightarrow> Inl e
      | Inr (turn', s) \<Rightarrow>
          (case process_turns nlp turns (conversation_complexity + s) of
             Inl e \<Rightarrow> Inl e
           | Inr (turns', c) \<Rightarrow> Inr (turn' # turns', c)))"

text \<open>
  What \<open>for turn in x\<close> iterates over: the elements of a list, the keys of a dict, the
  characters of a string; anything else is not iterable.
\<close>

fun iterate :: "json \<Rightarrow> error + json list" where
  "iterate (JArr xs) = Inr xs"
| "iterate (JObj d) = Inr (map (\<lambda>kv. JStr (fst kv)) d)"
| "iterate (JStr s) = Inr (map (\<lambda>c. JStr [c]) s)"
| "iterate _ = Inl TypeError"

text \<open>
  Lines 60 to 67 when the key is present.  The turns are changed in place, so the list
  under \<open>conversations\<close> holds the changed turns; keys and characters are immutable,
  so a dict or string under \<open>conversations\<close> stays as it is (and any element of it
  raises in \<open>process_turn\<close>).
\<close>

definition score_conversations :: "annotator \<Rightarrow> dict \<Rightarrow> json \<Rightarrow> error + dict" where
  "score_conversations nlp obj conv =
     (case iterate conv of
        Inl e \<Rightarrow> Inl e
      | Inr turns \<Rightarrow>
          (case process_turns nlp turns 0 of
             Inl e \<Rightarrow> Inl e
           | Inr (turns', conversation_complexity) \<Rightarrow>
               (let obj1 = (case conv of
                              JArr _ \<Rightarrow> AList.update ''conversations'' (JArr turns') obj
                            | _ \<Rightarrow> obj);
                    obj2 = AList.update ''total_conversation_complexity''
                             (JInt conversation_complexity) obj1
                in Inr (AList.update ''is_complex''
                          (JBool (conversation_complexity > COMPLEXITY_THRESHOLD_sharegpt))
                          obj2))))"

text \<open>Line 69 and the two returns, for a dict.\<close>

definition decide_sharegpt :: "dict \<Rightarrow> bool \<Rightarrow> error + json option" where
  "decide_sharegpt obj filter_out_complex =
     (if \<not> filter_out_complex then Inr (Some (JObj obj))
      else (case map_of obj ''is_complex'' of
              None \<Rightarrow> Inl (KeyError ''is_complex'')
            | Some v \<Rightarrow> if \<not> truthy v then Inr (Some (JObj obj)) else Inr None))"

text \<open>
  \<open>process_line\<close> of the multi-turn script on the decoded line.  For a list or a
  string, \<open>"conversations" in obj\<close> is membership or substring search, and every
  subscript with a string key raises TypeError; for a number, a boolean or null the
  \<open>in\<close> itself raises.
\<close>

fun process_line_sharegpt :: "annotator \<Rightarrow> json \<times> bool \<Rightarrow> error + json option" where
  "process_line_sharegpt nlp (JObj obj, filter_out_complex) =
     (case map_of obj ''conversations'' of
        Some conv \<Rightarrow>
          (case score_conversations nlp obj conv of
             Inl e \<Rightarrow> Inl e
           | Inr obj' \<Rightarrow> decide_sharegpt obj' filter_out_complex)
      | None \<Rightarrow> decide_sharegpt obj filter_out_complex)"
| "process_line_sharegpt nlp (JArr xs, filter_out_complex) =
     (if JStr ''conversations'' \<in> set xs then Inl TypeError
      else if \<not> filter_out_complex then Inr (Some (JArr xs))
      else Inl TypeError)"
| "process_line_sharegpt nlp (JStr s, filter_out_complex) =
     (if sublist ''conversations'' s then Inl TypeError
      else if \<not> filter_out_complex then Inr (Some (JStr s))
      else Inl TypeError)"
| "process_line_sharegpt nlp (_, filter_out_complex) = Inl TypeError"


section \<open>Properties of the scorer\<close>

lemma scan_passive_score_ge: "score a \<le> score (scan_passive a ts)"
  by (induction ts) auto

lemma analyze_sent_score_ge: "score a \<le> score (analyze_sent a sent)"
proof -
  have "score a \<le> score (scan_passive a sent)"
    by (rule scan_passive_score_ge)
  then show ?thesis
    by (simp add: analyze_sent_def Let_def MAX_PARTICIPLES_def MAX_NESTED_CLAUSES_def)
qed

lemma foldl_analyze_sent_score_ge: "score a \<le> score (foldl analyze_sent a d)"
proof (induction d arbitrary: a)
  case Nil
  show ?case by simp
next
  case (Cons s d)
  have "score a \<le> score (analyze_sent a s)"
    by (rule analyze_sent_score_ge)
  also have "\<dots> \<le> score (foldl analyze_sent (analyze_sent a s) d)"
    by (rule Cons.IH)
  finally show ?case by simp
qed

text \<open>
  C1: for every text on which the annotator returns, the analysis that
  \<open>analyze_complexity\<close> returns has a score that is not negative, and its
  \<open>is_complex\<close> flag is set exactly when the score is positive.
\<close>

theorem analyze_complexity_score_invariant:
  "case analyze_complexity nlp txt of
     Inl e \<Rightarrow> nlp txt = None
   | Inr a \<Rightarrow> 0 \<le> score a \<and> (is_complex a \<longleftrightarrow> 0 < score a)"
proof (cases "nlp txt")
  case None
  then show ?thesis by (simp add: analyze_complexity_def)
next
  case (Some d)
  have "score (initial_analysis d) \<le> score (foldl analyze_sent (initial_analysis d) d)"
    by (rule foldl_analyze_sent_score_ge)
  then have "0 \<le> score (foldl analyze_sent (initial_analysis d) d)"
    by (simp add: initial_analysis_def)
  with Some show ?thesis
    by (simp add: analyze_complexity_def analyze_doc_def Let_def)
qed

subsection \<open>The sentence loop in closed form\<close>

lemma scan_passive_eq:
  "scan_passive a ts =
     (if sent_has_passive ts \<and> \<not> has_passive_voice a then
        a\<lparr>reasons := reasons a @ [''Contains passive voice''],
          has_passive_voice := True,
          score := score a + 1\<rparr>
      else a)"
  by (induction ts) (auto simp: sent_has_passive_def)

lemma analyze_sent_score:
  "score (analyze_sent a sent) =
     score a + (if sent_has_passive sent \<and> \<not> has_passive_voice a then 1 else 0) + sent_excess sent"
  by (simp add: analyze_sent_def scan_passive_eq sent_excess_def Let_def)

lemma analyze_sent_reasons:
  "reasons (analyze_sent a sent) =
     reasons a @ (if sent_has_passive sent \<and> \<not> has_passive_voice a
                  then [''Contains passive voice''] else []) @ sent_reasons sent"
  by (simp add: analyze_sent_def scan_passive_eq sent_reasons_def Let_def)

lemma analyze_sent_has_passive_voice:
  "has_passive_voice (analyze_sent a sent) = (has_passive_voice a \<or> sent_has_passive sent)"
  by (auto simp add: analyze_sent_def scan_passive_eq Let_def)

lemma analyze_sent_maxima:
  "max_nested_clauses (analyze_sent a sent) = max (max_nested_clauses a) (sent_clauses sent)"
  "longest_sentence (analyze_sent a sent) = max (longest_sentence a) (int (length sent))"
  "num_participle_phrases (analyze_sent a sent) = max (num_participle_phrases a) (sent_participles sent)"
  "num_sentences (analyze_sent a sent) = num_sentences a"
  by (simp_all add: analyze_sent_def scan_passive_eq Let_def)

lemma foldl_has_passive_voice:
  "has_passive_voice (foldl analyze_sent a d) = (has_passive_voice a \<or> list_ex sent_has_passive d)"
  by (induction d arbitrary: a) (auto simp: analyze_sent_has_passive_voice)

lemma foldl_score:
  "score (foldl analyze_sent a d) =
     score a + (if list_ex sent_has_passive d \<and> \<not> has_passive_voice a then 1 else 0)
       + sum_list (map sent_excess d)"
  by (induction d arbitrary: a) (auto simp: analyze_sent_has_passive_voice analyze_sent_score)

lemma foldl_reasons_seen:
  "has_passive_voice a \<Longrightarrow>
   reasons (foldl analyze_sent a d) = reasons a @ concat (map sent_reasons d)"
  by (induction d arbitrary: a) (auto simp: analyze_sent_has_passive_voice analyze_sent_reasons)

lemma foldl_reasons_unseen:
  "\<not> has_passive_voice a \<Longrightarrow>
   reasons (foldl analyze_sent a d) =
     reasons a @ concat (map sent_reasons (takeWhile (\<lambda>s. \<not> sent_has_passive s) d)) @
       (case dropWhile (\<lambda>s. \<not> sent_has_passive s) d of
          [] \<Rightarrow> []
        | s # ss \<Rightarrow> ''Contains passive voice'' # concat (map sent_reasons (s # ss)))"
proof (induction d arbitrary: a)
  case Nil
  show ?case by simp
next
  case (Cons s d)
  show ?case
  proof (cases "sent_has_passive s")
    case True
    then have "has_passive_voice (analyze_sent a s)"
      by (simp add: analyze_sent_has_passive_voice)
    then show ?thesis using True Cons.prems
      by (simp add: foldl_reasons_seen analyze_sent_reasons)
  next
    case False
    then have "\<not> has_passive_voice (analyze_sent a s)"
      using Cons.prems by (simp add: analyze_sent_has_passive_voice)
    from Cons.IH [OF this] show ?thesis using False
      by (simp add: analyze_sent_reasons)
  qed
qed

lemma passive_reason_not_in_sent_reasons:
  "''Contains passive voice'' \<notin> set (sent_reasons sent)"
  by (simp add: sent_reasons_def participle_reason_def clause_reason_def)

lemma count_passive_sent_reasons:
  "count_list (concat (map sent_reasons d)) ''Contains passive voice'' = 0"
  by (induction d) (simp_all add: passive_reason_not_in_sent_reasons)

lemma dropWhile_passive_nonempty:
  "list_ex sent_has_passive d \<Longrightarrow> dropWhile (\<lambda>s. \<not> sent_has_passive s) d \<noteq> []"
  by (induction d) auto

lemma filter_nonempty_list_ex: "filter P xs \<noteq> [] \<Longrightarrow> list_ex P xs"
  by (induction xs) (auto split: if_splits)

lemma analyze_doc_score:
  "score (analyze_doc d) =
     (if list_ex sent_has_passive d then 1 else 0) + sum_list (map sent_excess d)"
  by (simp add: analyze_doc_def Let_def foldl_score initial_analysis_def)

lemma analyze_doc_reasons:
  "reasons (analyze_doc d) =
     concat (map sent_reasons (takeWhile (\<lambda>s. \<not> sent_has_passive s) d)) @
       (case dropWhile (\<lambda>s. \<not> sent_has_passive s) d of
          [] \<Rightarrow> []
        | s # ss \<Rightarrow> ''Contains passive voice'' # concat (map sent_reasons (s # ss)))"
proof -
  have "\<not> has_passive_voice (initial_analysis d)"
    by (simp add: initial_analysis_def)
  from foldl_reasons_unseen [OF this, of d] show ?thesis
    by (simp add: analyze_doc_def Let_def initial_analysis_def)
qed

lemma analyze_doc_has_passive_voice:
  "has_passive_voice (analyze_doc d) = list_ex sent_has_passive d"
  by (simp add: analyze_doc_def Let_def foldl_has_passive_voice initial_analysis_def)

text \<open>
  C2: when more than one sentence of the text holds a passive marker (\<open>nsubjpass\<close> or
  \<open>auxpass\<close>), passive voice adds exactly 1 to the score in total (the rest of the
  score is what the participle and clause caps add), and \<open>reasons\<close> holds exactly one
  passive-voice entry.  That entry stands where the first marker of the whole text is
  met: after the reasons of the sentences before the first sentence with a marker, and
  before the reasons of that sentence.
\<close>

theorem passive_voice_counted_once:
  assumes "nlp txt = Some d"
    and "1 < length (filter sent_has_passive d)"
  shows "\<exists>a. analyze_complexity nlp txt = Inr a \<and>
           has_passive_voice a \<and>
           score a = 1 + sum_list (map sent_excess d) \<and>
           count_list (reasons a) ''Contains passive voice'' = 1 \<and>
           reasons a =
             concat (map sent_reasons (takeWhile (\<lambda>s. \<not> sent_has_passive s) d)) @
             ''Contains passive voice'' #
             concat (map sent_reasons (dropWhile (\<lambda>s. \<not> sent_has_passive s) d))"
proof -
  from assms(2) have ex: "list_ex sent_has_passive d"
    by (intro filter_nonempty_list_ex) auto
  then obtain s ss where dw: "dropWhile (\<lambda>s. \<not> sent_has_passive s) d = s # ss"
    using dropWhile_passive_nonempty [of d] by (cases "dropWhile (\<lambda>s. \<not> sent_has_passive s) d") auto
  have r: "reasons (analyze_doc d) =
             concat (map sent_reasons (takeWhile (\<lambda>s. \<not> sent_has_passive s) d)) @
             ''Contains passive voice'' #
             concat (map sent_reasons (dropWhile (\<lambda>s. \<not> sent_has_passive s) d))"
    by (simp add: analyze_doc_reasons dw)
  have c: "count_list (reasons (analyze_doc d)) ''Contains passive voice'' = 1"
    unfolding r by (simp add: count_passive_sent_reasons)
  have s: "score (analyze_doc d) = 1 + sum_list (map sent_excess d)"
    using ex by (simp add: analyze_doc_score)
  have p: "has_passive_voice (analyze_doc d)"
    using ex by (simp add: analyze_doc_has_passive_voice)
  from assms(1) have "analyze_complexity nlp txt = Inr (analyze_doc d)"
    by (simp add: analyze_complexity_def)
  with r c s p show ?thesis by blast
qed

theorem passive_voice_counted_once_witness:
  "1 < length (filter sent_has_passive
         [[\<lparr>orth = ''was'', tag = ''VBD'', dep = ''auxpass''\<rparr>],
          [\<lparr>orth = ''ran'', tag = ''VBD'', dep = ''ROOT''\<rparr>],
          [\<lparr>orth = ''was'', tag = ''VBD'', dep = ''auxpass''\<rparr>]]) \<and>
   (\<exists>a. analyze_complexity
          (\<lambda>t. Some [[\<lparr>orth = ''was'', tag = ''VBD'', dep = ''auxpass''\<rparr>],
                      [\<lparr>orth = ''ran'', tag = ''VBD'', dep = ''ROOT''\<rparr>],
                      [\<lparr>orth = ''was'', tag = ''VBD'', dep = ''auxpass''\<rparr>]]) ''abc'' = Inr a \<and>
        has_passive_voice a \<and> score a = 1 \<and> reasons a = [''Contains passive voice''])"
proof -
  let ?p = "\<lparr>orth = ''was'', tag = ''VBD'', dep = ''auxpass''\<rparr>"
  let ?q = "\<lparr>orth = ''ran'', tag = ''VBD'', dep = ''ROOT''\<rparr>"
  let ?d = "[[?p], [?q], [?p]]"
  have p: "sent_has_passive [?p]"
    by (simp add: sent_has_passive_def is_passive_marker_def)
  have q: "\<not> sent_has_passive [?q]"
    by (simp add: sent_has_passive_def is_passive_marker_def)
  have h: "1 < length (filter sent_has_passive ?d)"
    using p q by simp
  have e: "sent_excess [?p] = 0" "sent_excess [?q] = 0"
    by (simp_all add: sent_excess_def sent_participles_def sent_clauses_def
        MAX_PARTICIPLES_def MAX_NESTED_CLAUSES_def)
  have r: "sent_reasons [?p] = []" "sent_reasons [?q] = []"
    by (simp_all add: sent_reasons_def sent_participles_def sent_clauses_def
        MAX_PARTICIPLES_def MAX_NESTED_CLAUSES_def)
  from passive_voice_counted_once [of "\<lambda>t. Some ?d" "''abc''" ?d, OF refl h]
  obtain a where "analyze_complexity (\<lambda>t. Some ?d) ''abc'' = Inr a"
    and "has_passive_voice a" and "score a = 1" and "reasons a = [''Contains passive voice'']"
    using p q e r by auto
  with h show ?thesis by blast
qed




text \<open>
  C7: when the annotator yields no sentence for a text (as it does for the empty text),
  the analysis has \<open>num_sentences = 0\<close>, \<open>score = 0\<close>, no reasons,
  \<open>is_complex = False\<close>, no passive voice, and all three maxima 0.
\<close>

theorem empty_text_analysis:
  "nlp txt = Some [] \<Longrightarrow>
   analyze_complexity nlp txt =
     Inr \<lparr>has_passive_voice = False, max_nested_clauses = 0, longest_sentence = 0,
          num_participle_phrases = 0, num_sentences = 0, is_complex = False,
          reasons = [], score = 0\<rparr>"
  by (simp add: analyze_complexity_def analyze_doc_def initial_analysis_def)

theorem empty_text_analysis_witness:
  "analyze_complexity (\<lambda>t. Some []) [] =
     Inr \<lparr>has_passive_voice = False, max_nested_clauses = 0, longest_sentence = 0,
          num_participle_phrases = 0, num_sentences = 0, is_complex = False,
          reasons = [], score = 0\<rparr>"
  using empty_text_analysis [of "\<lambda>t. Some []" "[]"] by simp

section \<open>Properties of single-field mode\<close>


lemma analyze_field_scored:
  "map_of obj ANALYZE_FIELD = Some (JStr txt) \<Longrightarrow> txt \<noteq> [] \<Longrightarrow>
   analyze_complexity nlp txt = Inr a \<Longrightarrow>
   analyze_field nlp obj =
     Inr (AList.update ''complexity_analysis'' (JObj (analysis_dict a)) obj, score a)"
  by (simp add: analyze_field_def)

lemma analyze_field_stub:
  "map_of obj ANALYZE_FIELD = None \<or> (\<exists>v. map_of obj ANALYZE_FIELD = Some v \<and> \<not> truthy v) \<Longrightarrow>
   analyze_field nlp obj = Inr (AList.update ''complexity_analysis'' (JObj stub_analysis) obj, 0)"
  by (auto simp add: analyze_field_def)

lemma process_line_scored:
  assumes "map_of obj ANALYZE_FIELD = Some (JStr txt)" and "txt \<noteq> []"
    and "analyze_complexity nlp txt = Inr a"
  shows "process_line nlp (JObj obj, f) =
     (if \<not> f \<or> score a \<le> COMPLEXITY_THRESHOLD then
        Inr (Some (JObj
          (AList.update ''is_complex'' (JBool (score a > COMPLEXITY_THRESHOLD))
            (AList.update ''total_complexity_score'' (JInt (score a))
              (AList.update ''complexity_analysis'' (JObj (analysis_dict a)) obj)))))
      else Inr None)"
  using analyze_field_scored [OF assms] by (simp add: Let_def)

lemma process_line_stub:
  assumes "map_of obj ANALYZE_FIELD = None \<or>
           (\<exists>v. map_of obj ANALYZE_FIELD = Some v \<and> \<not> truthy v)"
  shows "process_line nlp (JObj obj, f) =
     Inr (Some (JObj
       (AList.update ''is_complex'' (JBool False)
         (AList.update ''total_complexity_score'' (JInt 0)
           (AList.update ''complexity_analysis'' (JObj stub_analysis) obj)))))"
  using analyze_field_stub [OF assms] by (simp add: Let_def COMPLEXITY_THRESHOLD_def)

text \<open>
  C3: in single-field mode with filtering enabled, a record whose text scores exactly the
  threshold 128 is emitted (with both enrichment fields and \<open>is_complex = False\<close>), a
  record whose text scores 129 is dropped; the record is dropped exactly when the score
  is strictly greater than \<open>COMPLEXITY_THRESHOLD\<close>.
\<close>

theorem threshold_is_strict:
  assumes "map_of obj ANALYZE_FIELD = Some (JStr txt)" and "txt \<noteq> []"
    and "analyze_complexity nlp txt = Inr a"
  shows "COMPLEXITY_THRESHOLD = 128 \<and>
    (score a = 128 \<longrightarrow>
       process_line nlp (JObj obj, True) =
         Inr (Some (JObj
           (AList.update ''is_complex'' (JBool False)
             (AList.update ''total_complexity_score'' (JInt 128)
               (AList.update ''complexity_analysis'' (JObj (analysis_dict a)) obj)))))) \<and>
    (score a = 129 \<longrightarrow> process_line nlp (JObj obj, True) = Inr None) \<and>
    (process_line nlp (JObj obj, True) = Inr None \<longleftrightarrow> score a > COMPLEXITY_THRESHOLD)"
  unfolding process_line_scored [OF assms] by (simp add: COMPLEXITY_THRESHOLD_def)

theorem threshold_is_strict_witness:
  "process_line (\<lambda>t. Some [replicate (size t) \<lparr>orth = ''going'', tag = ''VBG'', dep = ''ROOT''\<rparr>])
     (JObj [(''text'', JStr (replicate 130 CHR ''a''))], True) =
     Inr (Some (JObj [(''text'', JStr (replicate 130 CHR ''a'')),
        (''complexity_analysis'', JObj (analysis_dict
            (analyze_doc [replicate 130 \<lparr>orth = ''going'', tag = ''VBG'', dep = ''ROOT''\<rparr>]))),
        (''total_complexity_score'', JInt 128),
        (''is_complex'', JBool False)])) \<and>
   process_line (\<lambda>t. Some [replicate (size t) \<lparr>orth = ''going'', tag = ''VBG'', dep = ''ROOT''\<rparr>])
     (JObj [(''text'', JStr (replicate 131 CHR ''a''))], True) = Inr None"
proof -
  let ?nlp = "\<lambda>t::string. Some [replicate (size t) \<lparr>orth = ''going'', tag = ''VBG'', dep = ''ROOT''\<rparr>]"
  have s: "score (analyze_doc [replicate n \<lparr>orth = ''going'', tag = ''VBG'', dep = ''ROOT''\<rparr>]) =
      (if n > 2 then int n - 2 else 0)" for n
    by (simp add: analyze_doc_score sent_has_passive_def list_ex_iff is_passive_marker_def
        sent_excess_def sent_participles_def sent_clauses_def is_participle_def is_clause_def
        filter_replicate MAX_PARTICIPLES_def MAX_NESTED_CLAUSES_def)
  have a: "analyze_complexity ?nlp (replicate n CHR ''a'') =
      Inr (analyze_doc [replicate n \<lparr>orth = ''going'', tag = ''VBG'', dep = ''ROOT''\<rparr>])" for n
    by (simp add: analyze_complexity_def)
  have f: "map_of [(''text'', JStr t)] ANALYZE_FIELD = Some (JStr t)" for t
    by (simp add: ANALYZE_FIELD_def)
  have n: "replicate 130 CHR ''a'' \<noteq> []" "replicate 131 CHR ''a'' \<noteq> []"
    by simp_all
  from threshold_is_strict [OF f n(1) a] have 1: "process_line ?nlp
     (JObj [(''text'', JStr (replicate 130 CHR ''a''))], True) =
     Inr (Some (JObj [(''text'', JStr (replicate 130 CHR ''a'')),
        (''complexity_analysis'', JObj (analysis_dict
            (analyze_doc [replicate 130 \<lparr>orth = ''going'', tag = ''VBG'', dep = ''ROOT''\<rparr>]))),
        (''total_complexity_score'', JInt 128),
        (''is_complex'', JBool False)]))"
    by (simp add: s del: process_line.simps)
  from threshold_is_strict [OF f n(2) a] have 2: "process_line ?nlp
     (JObj [(''text'', JStr (replicate 131 CHR ''a''))], True) = Inr None"
    by (simp add: s del: process_line.simps)
  from 1 2 show ?thesis by simp
qed

text \<open>
  C6: in single-field mode, when the field \<open>text\<close> is absent or its value is empty
  (falsy), \<open>process_line\<close> does not raise, whatever the filter flag: it emits the record
  with the stub analysis under \<open>complexity_analysis\<close> (score 0, \<open>is_complex\<close> false,
  one reason, which contains the field name), \<open>total_complexity_score = 0\<close> and
  \<open>is_complex = False\<close>.
\<close>

theorem missing_field_stub:
  assumes "map_of obj ANALYZE_FIELD = None \<or>
           (\<exists>v. map_of obj ANALYZE_FIELD = Some v \<and> \<not> truthy v)"
  shows "\<exists>out. process_line nlp (JObj obj, filter_out_complex) = Inr (Some (JObj out)) \<and>
           map_of out ''complexity_analysis'' = Some (JObj stub_analysis) \<and>
           map_of stub_analysis ''score'' = Some (JInt 0) \<and>
           map_of stub_analysis ''is_complex'' = Some (JBool False) \<and>
           map_of stub_analysis ''reasons'' = Some (JArr [JStr ''MISSING FIELD text'']) \<and>
           sublist ANALYZE_FIELD ''MISSING FIELD text'' \<and>
           map_of out ''total_complexity_score'' = Some (JInt 0) \<and>
           map_of out ''is_complex'' = Some (JBool False)"
proof -
  have "sublist ANALYZE_FIELD (''MISSING FIELD '' @ ANALYZE_FIELD @ [])"
    by (rule sublist_appendI)
  then have "sublist ANALYZE_FIELD ''MISSING FIELD text''"
    by (simp add: ANALYZE_FIELD_def)
  then show ?thesis
    unfolding process_line_stub [OF assms]
    by (simp add: update_conv' stub_analysis_def ANALYZE_FIELD_def)
qed

theorem missing_field_stub_witness:
  "process_line (\<lambda>t. None) (JObj [(''id'', JInt 7)], True) =
     Inr (Some (JObj [(''id'', JInt 7),
                      (''complexity_analysis'', JObj stub_analysis),
                      (''total_complexity_score'', JInt 0),
                      (''is_complex'', JBool False)])) \<and>
   process_line (\<lambda>t. None) (JObj [(''text'', JStr [])], True) =
     Inr (Some (JObj [(''text'', JStr []),
                      (''complexity_analysis'', JObj stub_analysis),
                      (''total_complexity_score'', JInt 0),
                      (''is_complex'', JBool False)]))"
proof -
  have a: "map_of [(''id'', JInt 7)] ANALYZE_FIELD = None \<or>
           (\<exists>v. map_of [(''id'', JInt 7)] ANALYZE_FIELD = Some v \<and> \<not> truthy v)"
    by (simp add: ANALYZE_FIELD_def)
  have b: "map_of [(''text'', JStr [])] ANALYZE_FIELD = None \<or>
           (\<exists>v. map_of [(''text'', JStr [])] ANALYZE_FIELD = Some v \<and> \<not> truthy v)"
    by (simp add: ANALYZE_FIELD_def)
  from missing_field_stub [OF a, of "\<lambda>t. None" True]
  have 1: "\<exists>out. process_line (\<lambda>t. None) (JObj [(''id'', JInt 7)], True) = Inr (Some (JObj out))"
    by blast
  from missing_field_stub [OF b, of "\<lambda>t. None" True]
  have 2: "\<exists>out. process_line (\<lambda>t. None) (JObj [(''text'', JStr [])], True) = Inr (Some (JObj out))"
    by blast
  from 1 2 show ?thesis
    by (auto simp add: analyze_field_def ANALYZE_FIELD_def Let_def COMPLEXITY_THRESHOLD_def)
qed









text \<open>
  C10: in single-field mode the analysis embedded for an absent or empty field is the
  stub, which has no key \<open>num_sentences\<close>; the analysis embedded for a scored text has
  it.  The scorer's dict has the stub's keys and \<open>num_sentences\<close>.
\<close>

theorem stub_lacks_num_sentences:
  "(map_of obj ANALYZE_FIELD = None \<or>
      (\<exists>v. map_of obj ANALYZE_FIELD = Some v \<and> \<not> truthy v) \<longrightarrow>
      (\<exists>out. process_line nlp (JObj obj, False) = Inr (Some (JObj out)) \<and>
             map_of out ''complexity_analysis'' = Some (JObj stub_analysis) \<and>
             map_of stub_analysis ''num_sentences'' = None)) \<and>
   (map_of obj ANALYZE_FIELD = Some (JStr txt) \<and> txt \<noteq> [] \<and>
      analyze_complexity nlp txt = Inr a \<longrightarrow>
      (\<exists>out. process_line nlp (JObj obj, False) = Inr (Some (JObj out)) \<and>
             map_of out ''complexity_analysis'' = Some (JObj (analysis_dict a)) \<and>
             map_of (analysis_dict a) ''num_sentences'' = Some (JInt (num_sentences a)))) \<and>
   ''num_sentences'' \<notin> fst ` set stub_analysis \<and>
   fst ` set (analysis_dict a) = insert ''num_sentences'' (fst ` set stub_analysis)"
proof (intro conjI impI)
  assume h: "map_of obj ANALYZE_FIELD = None \<or>
      (\<exists>v. map_of obj ANALYZE_FIELD = Some v \<and> \<not> truthy v)"
  show "\<exists>out. process_line nlp (JObj obj, False) = Inr (Some (JObj out)) \<and>
             map_of out ''complexity_analysis'' = Some (JObj stub_analysis) \<and>
             map_of stub_analysis ''num_sentences'' = None"
    unfolding process_line_stub [OF h]
    by (simp add: update_conv' stub_analysis_def)
next
  assume h: "map_of obj ANALYZE_FIELD = Some (JStr txt) \<and> txt \<noteq> [] \<and>
      analyze_complexity nlp txt = Inr a"
  then have p: "map_of obj ANALYZE_FIELD = Some (JStr txt)" "txt \<noteq> []"
    "analyze_complexity nlp txt = Inr a"
    by simp_all
  show "\<exists>out. process_line nlp (JObj obj, False) = Inr (Some (JObj out)) \<and>
             map_of out ''complexity_analysis'' = Some (JObj (analysis_dict a)) \<and>
             map_of (analysis_dict a) ''num_sentences'' = Some (JInt (num_sentences a))"
    unfolding process_line_scored [OF p]
    by (simp add: update_conv' analysis_dict_def)
next
  show "''num_sentences'' \<notin> fst ` set stub_analysis"
    by (simp add: stub_analysis_def)
next
  show "fst ` set (analysis_dict a) = insert ''num_sentences'' (fst ` set stub_analysis)"
    by (auto simp add: stub_analysis_def analysis_dict_def)
qed

theorem stub_lacks_num_sentences_witness:
  "(\<exists>out. process_line (\<lambda>t. Some []) (JObj [(''id'', JInt 7)], False) = Inr (Some (JObj out)) \<and>
          map_of out ''complexity_analysis'' = Some (JObj stub_analysis) \<and>
          map_of stub_analysis ''num_sentences'' = None) \<and>
   (\<exists>out. process_line (\<lambda>t. Some []) (JObj [(''text'', JStr ''Hi'')], False)
            = Inr (Some (JObj out)) \<and>
          map_of out ''complexity_analysis'' = Some (JObj (analysis_dict (analyze_doc []))) \<and>
          map_of (analysis_dict (analyze_doc [])) ''num_sentences'' = Some (JInt 0))"
proof -
  have a: "map_of [(''id'', JInt 7)] ANALYZE_FIELD = None"
    by (simp add: ANALYZE_FIELD_def)
  have b: "map_of [(''text'', JStr ''Hi'')] ANALYZE_FIELD = Some (JStr ''Hi'')" "''Hi'' \<noteq> []"
    "analyze_complexity (\<lambda>t. Some []) ''Hi'' = Inr (analyze_doc [])"
    by (simp_all add: ANALYZE_FIELD_def analyze_complexity_def)
  have n: "num_sentences (analyze_doc []) = 0"
    by (simp add: analyze_doc_def initial_analysis_def)
  from stub_lacks_num_sentences [of "[(''id'', JInt 7)]" "\<lambda>t. Some []" "''Hi''" "analyze_doc []"] a
  have 1: "\<exists>out. process_line (\<lambda>t. Some []) (JObj [(''id'', JInt 7)], False) = Inr (Some (JObj out)) \<and>
          map_of out ''complexity_analysis'' = Some (JObj stub_analysis) \<and>
          map_of stub_analysis ''num_sentences'' = None"
    by blast
  from stub_lacks_num_sentences [of "[(''text'', JStr ''Hi'')]" "\<lambda>t. Some []" "''Hi''"
      "analyze_doc []"] b n
  have 2: "\<exists>out. process_line (\<lambda>t. Some []) (JObj [(''text'', JStr ''Hi'')], False)
            = Inr (Some (JObj out)) \<and>
          map_of out ''complexity_analysis'' = Some (JObj (analysis_dict (analyze_doc []))) \<and>
          map_of (analysis_dict (analyze_doc [])) ''num_sentences'' = Some (JInt 0)"
    by simp
  from 1 2 show ?thesis by blast
qed

section \<open>The filter decision in both modes\<close>


lemma decide_sharegpt_off: "decide_sharegpt obj False = Inr (Some (JObj obj))"
  by (simp add: decide_sharegpt_def)

lemma decide_sharegpt_on:
  "decide_sharegpt obj True =
     (case map_of obj ''is_complex'' of
        None \<Rightarrow> Inl (KeyError ''is_complex'')
      | Some v \<Rightarrow> if truthy v then Inr None else Inr (Some (JObj obj)))"
  by (simp add: decide_sharegpt_def split: option.splits)










section \<open>Multi-turn mode without a \<open>conversations\<close> key\<close>

text \<open>
  C9, as amended: in multi-turn mode, for a record without a \<open>conversations\<close> key,
  \<open>process_line\<close> returns the record unchanged when filtering is disabled; when
  filtering is enabled it raises \<open>KeyError\<close> if the record has no \<open>is_complex\<close> key
  either, and otherwise decides on the value the record came with: dropped when that
  value is truthy, emitted unchanged when it is not.
\<close>

theorem sharegpt_without_conversations:
  assumes "map_of obj ''conversations'' = None"
  shows "process_line_sharegpt nlp (JObj obj, False) = Inr (Some (JObj obj)) \<and>
    (map_of obj ''is_complex'' = None \<longrightarrow>
       process_line_sharegpt nlp (JObj obj, True) = Inl (KeyError ''is_complex'')) \<and>
    (\<forall>v. map_of obj ''is_complex'' = Some v \<longrightarrow>
       process_line_sharegpt nlp (JObj obj, True) =
         (if truthy v then Inr None else Inr (Some (JObj obj))))"
  using assms by (simp add: decide_sharegpt_off decide_sharegpt_on)

text \<open>
  The claim as first stated (\<open>KeyError\<close> for every record without \<open>conversations\<close>
  when filtering is enabled) fails on a record that already has an \<open>is_complex\<close> key:
  the record is emitted.  The annotator is never called here; \<open>map_of []\<close> is the one
  that raises on every text.
\<close>

theorem sharegpt_without_conversations_counterexample:
  "map_of [(''is_complex'', JBool False)] ''conversations'' = None \<and>
   process_line_sharegpt (map_of []) (JObj [(''is_complex'', JBool False)], True) =
     Inr (Some (JObj [(''is_complex'', JBool False)]))"
  by (simp add: decide_sharegpt_def)

theorem sharegpt_without_conversations_witness:
  "process_line_sharegpt (map_of []) (JObj [(''id'', JInt 7)], False) =
     Inr (Some (JObj [(''id'', JInt 7)])) \<and>
   process_line_sharegpt (map_of []) (JObj [(''id'', JInt 7)], True) =
     Inl (KeyError ''is_complex'') \<and>
   process_line_sharegpt (map_of []) (JObj [(''is_complex'', JInt 1)], True) = Inr None \<and>
   process_line_sharegpt (map_of []) (JObj [(''is_complex'', JNull)], True) =
     Inr (Some (JObj [(''is_complex'', JNull)]))"
proof -
  have a: "map_of [(''id'', JInt 7)] ''conversations'' = None"
    and b: "map_of [(''is_complex'', JInt 1)] ''conversations'' = None"
    and c: "map_of [(''is_complex'', JNull)] ''conversations'' = None"
    by simp_all
  from sharegpt_without_conversations [OF a, of "map_of []"]
    sharegpt_without_conversations [OF b, of "map_of []"]
    sharegpt_without_conversations [OF c, of "map_of []"]
  show ?thesis by simp
qed

end
